theory Spec2Isabelle
  imports Complex_Main
begin

section \<open>Data model\<close>

text \<open>
  The repository holds two implementations of one simulation engine:
  \<^verbatim>\<open>MechanicalDog\<close> (file \<^verbatim>\<open>dog_simulation_slow.py\<close>) and
  \<^verbatim>\<open>MechanicalDogOptimized\<close> (file \<^verbatim>\<open>dog_simulation_optimized.py\<close>).
  Both are embedded; a definition ending in \<open>_slow\<close> follows the first file, one
  ending in \<open>_opt\<close> the second.

  Python floats are modelled as \<^typ>\<open>real\<close> with exact arithmetic: rounding,
  overflow, infinities and NaN are outside the model. Python's unbounded integers are
  \<^typ>\<open>int\<close>. A position, velocity, target or waypoint is a sequence of three
  numbers in the source and a triple here, so a vector with fewer than three components
  is excluded by the type.
\<close>

type_synonym vec3 = "real \<times> real \<times> real"

datatype py_error = IndexError | TypeError | ValueError

record mechanical_dog =
  name :: string
  position :: vec3
  velocity :: vec3
  leg_positions :: "vec3 list"
  sensor_data :: "real list"
  movement_history :: "vec3 list"

text \<open>
  The optimized class keeps its history in a \<^verbatim>\<open>deque(maxlen=max_history)\<close>: the
  state has the deque's bound as one more field.
\<close>

record mechanical_dog_optimized = mechanical_dog +
  maxlen :: nat

text \<open>Python's \<^verbatim>\<open>range(n)\<close> for an integer \<open>n\<close>: empty when \<open>n \<le> 0\<close>.\<close>

definition py_range :: "int \<Rightarrow> int list" where
  "py_range n = map int [0..<nat n]"

text \<open>
  Python's \<^verbatim>\<open>xs[i]\<close>: an index below zero counts from the end, and an index
  outside \<open>[-len, len)\<close> raises \<^verbatim>\<open>IndexError\<close>.
\<close>

definition py_getitem :: "'a list \<Rightarrow> int \<Rightarrow> py_error + 'a" where
  "py_getitem xs i =
     (if 0 \<le> i \<and> i < int (length xs) then Inr (xs ! nat i)
      else if i < 0 \<and> - int (length xs) \<le> i then Inr (xs ! nat (int (length xs) + i))
      else Inl IndexError)"

text \<open>Python's \<^verbatim>\<open>xs[idx] = v\<close> for an index that is never negative.\<close>

definition py_setitem :: "'a list \<Rightarrow> nat \<Rightarrow> 'a \<Rightarrow> py_error + 'a list" where
  "py_setitem xs idx v = (if idx < length xs then Inr (xs[idx := v]) else Inl IndexError)"

text \<open>
  \<^verbatim>\<open>deque.append\<close> on a deque of bound \<open>m\<close>: the item goes to the right end, and
  when the deque is then longer than \<open>m\<close> the leftmost item is dropped.
\<close>

definition deque_append :: "nat \<Rightarrow> 'a list \<Rightarrow> 'a \<Rightarrow> 'a list" where
  "deque_append m d x = (let d' = d @ [x] in if m < length d' then tl d' else d')"

section \<open>Construction\<close>

definition MechanicalDog :: "string \<Rightarrow> mechanical_dog" where
  "MechanicalDog nm =
     \<lparr> name = nm, position = (0, 0, 0), velocity = (0, 0, 0),
       leg_positions = replicate 4 (0, 0, 0), sensor_data = [], movement_history = [] \<rparr>"

text \<open>\<^verbatim>\<open>deque(maxlen=k)\<close> raises \<^verbatim>\<open>ValueError\<close> for a negative \<open>k\<close>.\<close>

definition MechanicalDogOptimized :: "string \<Rightarrow> int \<Rightarrow> py_error + mechanical_dog_optimized" where
  "MechanicalDogOptimized nm max_history =
     (if max_history < 0 then Inl ValueError
      else Inr \<lparr> name = nm, position = (0, 0, 0), velocity = (0, 0, 0),
                 leg_positions = replicate 4 (0, 0, 0), sensor_data = [],
                 movement_history = [], maxlen = nat max_history \<rparr>)"

section \<open>Motion integrator\<close>

text \<open>
  \<^verbatim>\<open>update_position\<close> returns nothing; the model returns the state after the call.
  The slow class builds a new list and appends a copy of it to an unbounded list.
\<close>

definition update_position_slow :: "'a mechanical_dog_scheme \<Rightarrow> real \<Rightarrow> 'a mechanical_dog_scheme" where
  "update_position_slow self delta_time =
     (case (position self, velocity self) of
        ((px, py, pz), (vx, vy, vz)) \<Rightarrow>
          let new_position = (px + vx * delta_time, py + vy * delta_time, pz + vz * delta_time)
          in self\<lparr> position := new_position,
                   movement_history := movement_history self @ [new_position] \<rparr>)"

definition update_position_opt :: "mechanical_dog_optimized \<Rightarrow> real \<Rightarrow> mechanical_dog_optimized" where
  "update_position_opt self delta_time =
     (case (position self, velocity self) of
        ((px, py, pz), (vx, vy, vz)) \<Rightarrow>
          let new_position = (px + vx * delta_time, py + vy * delta_time, pz + vz * delta_time)
          in self\<lparr> position := new_position,
                   movement_history :=
                     deque_append (maxlen self) (movement_history self) new_position \<rparr>)"

text \<open>
  A run of calls \<^verbatim>\<open>update_position(dt)\<close>, one for each element of the list,
  as in the loops of the tests and of \<^verbatim>\<open>simulate_dog_movement\<close>.
\<close>

definition update_many_slow :: "'a mechanical_dog_scheme \<Rightarrow> real list \<Rightarrow> 'a mechanical_dog_scheme" where
  "update_many_slow self dts = fold (\<lambda>dt s. update_position_slow s dt) dts self"

definition update_many_opt :: "mechanical_dog_optimized \<Rightarrow> real list \<Rightarrow> mechanical_dog_optimized" where
  "update_many_opt self dts = fold (\<lambda>dt s. update_position_opt s dt) dts self"

text \<open>
  The positions that a run of updates records, in order: entry \<open>k\<close> is the position
  after update number \<open>k + 1\<close>.
\<close>

definition snapshots :: "mechanical_dog_optimized \<Rightarrow> real list \<Rightarrow> vec3 list" where
  "snapshots self dts = map (\<lambda>k. position (update_many_opt self (take (Suc k) dts))) [0..<length dts]"

section \<open>Limb distance estimator\<close>

text \<open>
  The slow class writes the three differences into a string and parses them back
  (\<^verbatim>\<open>float(str(x))\<close> is \<open>x\<close> for a Python float), then takes the root of
  \<^verbatim>\<open>sum([d**2 for d in distances])\<close>; its list of one hundred angles is never read.
  With a target of three components the only subscript that can fail is
  \<^verbatim>\<open>self.leg_positions[leg_index]\<close>.
  Neither class assigns to a field of \<^verbatim>\<open>self\<close> here, so the model is a function
  of the state that returns the distance only.
\<close>

definition calculate_leg_kinematics_slow :: "'a mechanical_dog_scheme \<Rightarrow> int \<Rightarrow> vec3 \<Rightarrow> py_error + real" where
  "calculate_leg_kinematics_slow self leg_index target_position =
     (case py_getitem (leg_positions self) leg_index of
        Inl e \<Rightarrow> Inl e
      | Inr (lx, ly, lz) \<Rightarrow>
          (case target_position of (tx, ty, tz) \<Rightarrow>
             let distances = [tx - lx, ty - ly, tz - lz]
             in Inr (sqrt (sum_list (map (\<lambda>d. d ^ 2) distances)))))"

definition calculate_leg_kinematics_opt :: "'a mechanical_dog_scheme \<Rightarrow> int \<Rightarrow> vec3 \<Rightarrow> py_error + real" where
  "calculate_leg_kinematics_opt self leg_index target_position =
     (case py_getitem (leg_positions self) leg_index of
        Inl e \<Rightarrow> Inl e
      | Inr (lx, ly, lz) \<Rightarrow>
          (case target_position of (tx, ty, tz) \<Rightarrow>
             let dx = tx - lx; dy = ty - ly; dz = tz - lz
             in Inr (sqrt (dx * dx + dy * dy + dz * dz))))"

section \<open>Field scanner\<close>

text \<open>
  The slow class appends \<^verbatim>\<open>math.pow(i, 2) + math.pow(j, 2)\<close> for every pair and
  then extends \<^verbatim>\<open>self.sensor_data\<close> by the readings.
\<close>

definition scan_readings_slow :: "int \<Rightarrow> real list" where
  "scan_readings_slow num_samples =
     concat (map (\<lambda>i. map (\<lambda>j. (of_int i) ^ 2 + (of_int j) ^ 2) (py_range num_samples))
                 (py_range num_samples))"

definition scan_environment_slow :: "'a mechanical_dog_scheme \<Rightarrow> int \<Rightarrow> 'a mechanical_dog_scheme \<times> real list" where
  "scan_environment_slow self num_samples =
     (let sensor_readings = scan_readings_slow num_samples
      in (self\<lparr> sensor_data := sensor_data self @ sensor_readings \<rparr>, sensor_readings))"

text \<open>
  The optimized class allocates \<^verbatim>\<open>[0.0] * (num_samples * num_samples)\<close> (empty when
  the product is not positive) and stores into it through a running index; a store
  outside the list would raise \<^verbatim>\<open>IndexError\<close>. The loop state is the list and
  the index.
\<close>

fun scan_inner_opt :: "int \<Rightarrow> int list \<Rightarrow> real list \<times> nat \<Rightarrow> py_error + real list \<times> nat" where
  "scan_inner_opt i_squared [] st = Inr st"
| "scan_inner_opt i_squared (j # js) (sensor_readings, idx) =
     (case py_setitem sensor_readings idx (of_int (i_squared + j * j)) of
        Inl e \<Rightarrow> Inl e
      | Inr sensor_readings' \<Rightarrow> scan_inner_opt i_squared js (sensor_readings', idx + 1))"

fun scan_outer_opt :: "int \<Rightarrow> int list \<Rightarrow> real list \<times> nat \<Rightarrow> py_error + real list \<times> nat" where
  "scan_outer_opt num_samples [] st = Inr st"
| "scan_outer_opt num_samples (i # is) st =
     (case scan_inner_opt (i * i) (py_range num_samples) st of
        Inl e \<Rightarrow> Inl e
      | Inr st' \<Rightarrow> scan_outer_opt num_samples is st')"

definition scan_environment_opt :: "'a mechanical_dog_scheme \<Rightarrow> int \<Rightarrow> py_error + 'a mechanical_dog_scheme \<times> real list" where
  "scan_environment_opt self num_samples =
     (let total_readings = num_samples * num_samples;
          sensor_readings = replicate (nat total_readings) 0
      in case scan_outer_opt num_samples (py_range num_samples) (sensor_readings, 0) of
           Inl e \<Rightarrow> Inl e
         | Inr (sensor_readings', idx) \<Rightarrow>
             Inr (self\<lparr> sensor_data := sensor_readings' \<rparr>, sensor_readings'))"

section \<open>Obstacle classifier\<close>

text \<open>
  Both classes fix \<^verbatim>\<open>threshold = 1000\<close> as a local variable; the method's only
  parameter besides \<^verbatim>\<open>self\<close> is \<^verbatim>\<open>sensor_data\<close>. The slow class returns a
  list, the optimized class a set.
\<close>

definition threshold :: real where
  "threshold = 1000"

definition find_obstacles_slow :: "real list \<Rightarrow> real list" where
  "find_obstacles_slow sensor_data_arg =
     fold (\<lambda>reading obstacles.
             if reading > threshold
             then (if reading \<notin> set obstacles then obstacles @ [reading] else obstacles)
             else obstacles)
          sensor_data_arg []"

definition find_obstacles_opt :: "real list \<Rightarrow> real set" where
  "find_obstacles_opt sensor_data_arg =
     fold (\<lambda>reading obstacles. if reading > threshold then insert reading obstacles else obstacles)
          sensor_data_arg {}"

text \<open>
  A call of a Python method with a keyword it does not declare raises
  \<^verbatim>\<open>TypeError\<close>. The second argument is the value passed as
  \<^verbatim>\<open>threshold=...\<close>, if any.
\<close>

definition find_obstacles_call_slow :: "real list \<Rightarrow> real option \<Rightarrow> py_error + real list" where
  "find_obstacles_call_slow sensor_data_arg threshold_kw =
     (case threshold_kw of None \<Rightarrow> Inr (find_obstacles_slow sensor_data_arg)
                         | Some t \<Rightarrow> Inl TypeError)"

definition find_obstacles_call_opt :: "real list \<Rightarrow> real option \<Rightarrow> py_error + real set" where
  "find_obstacles_call_opt sensor_data_arg threshold_kw =
     (case threshold_kw of None \<Rightarrow> Inr (find_obstacles_opt sensor_data_arg)
                         | Some t \<Rightarrow> Inl TypeError)"

section \<open>Path planner\<close>

text \<open>
  The loop is \<^verbatim>\<open>for step in range(1000)\<close> with a \<^verbatim>\<open>break\<close>; the first argument
  of the loop functions is the number of iterations left. The \<^verbatim>\<open>obstacles\<close>
  argument may be any Python object.
\<close>

definition step_size :: real where
  "step_size = 0.01"

definition tolerance :: real where
  "tolerance = 0.1"

definition tolerance_sq :: real where
  "tolerance_sq = tolerance * tolerance"

fun plan_loop_slow :: "nat \<Rightarrow> vec3 \<Rightarrow> vec3 \<Rightarrow> vec3 list \<Rightarrow> vec3 list" where
  "plan_loop_slow 0 goal current path = path"
| "plan_loop_slow (Suc steps) (gx, gy, gz) (cx, cy, cz) path =
     (let dist_to_goal = sqrt ((gx - cx) ^ 2 + (gy - cy) ^ 2 + (gz - cz) ^ 2)
      in if dist_to_goal < 0.1 then path
         else let next_pos = (cx + (gx - cx) * 0.01, cy + (gy - cy) * 0.01, cz + (gz - cz) * 0.01)
              in plan_loop_slow steps (gx, gy, gz) next_pos (path @ [next_pos]))"

definition plan_path_slow :: "vec3 \<Rightarrow> vec3 \<Rightarrow> 'o \<Rightarrow> vec3 list" where
  "plan_path_slow start goal obstacles = plan_loop_slow 1000 goal start []"

fun plan_loop_opt :: "nat \<Rightarrow> vec3 \<Rightarrow> vec3 \<Rightarrow> vec3 list \<Rightarrow> vec3 list" where
  "plan_loop_opt 0 goal current path = path"
| "plan_loop_opt (Suc steps) (goal_x, goal_y, goal_z) (cx, cy, cz) path =
     (let dx = goal_x - cx; dy = goal_y - cy; dz = goal_z - cz;
          dist_squared = dx * dx + dy * dy + dz * dz
      in if dist_squared < tolerance_sq then path
         else let current = (cx + dx * step_size, cy + dy * step_size, cz + dz * step_size)
              in plan_loop_opt steps (goal_x, goal_y, goal_z) current (path @ [current]))"

definition plan_path_opt :: "vec3 \<Rightarrow> vec3 \<Rightarrow> 'o \<Rightarrow> vec3 list" where
  "plan_path_opt start goal obstacles = plan_loop_opt 1000 goal start []"

section \<open>Energy estimator\<close>

text \<open>
  Both classes return the total and a log that is a string, one line
  \<^verbatim>\<open>Step {i}: {energy} units\<close> per segment. How Python prints a float is not
  modelled: the printer is the parameter \<open>repr\<close>. The loops run over
  \<^verbatim>\<open>range(len(path) - 1)\<close>, that is over the consecutive pairs of the path, with
  the index as a counter.
\<close>

definition digit_char :: "nat \<Rightarrow> char" where
  "digit_char n = ''0123456789'' ! n"

fun str_nat :: "nat \<Rightarrow> string" where
  "str_nat n = (if n < 10 then [digit_char n] else str_nat (n div 10) @ [digit_char (n mod 10)])"

declare str_nat.simps [simp del]

definition step_line :: "(real \<Rightarrow> string) \<Rightarrow> nat \<Rightarrow> real \<Rightarrow> string" where
  "step_line repr i energy = ''Step '' @ str_nat i @ '': '' @ repr energy @ '' units''"

text \<open>Python's \<^verbatim>\<open>"\n".join(parts)\<close>.\<close>

fun join_lines :: "string list \<Rightarrow> string" where
  "join_lines [] = []"
| "join_lines [l] = l"
| "join_lines (l # ls) = l @ [CHR 0x0A] @ join_lines ls"

fun energy_loop_slow :: "(real \<Rightarrow> string) \<Rightarrow> vec3 list \<Rightarrow> nat \<Rightarrow> real \<times> string \<Rightarrow> real \<times> string" where
  "energy_loop_slow repr ((cx, cy, cz) # (nx, ny, nz) # rest) i (total_energy, energy_log) =
     (let distance = sqrt (0 + (nx - cx) ^ 2 + (ny - cy) ^ 2 + (nz - cz) ^ 2);
          energy = distance * 10
      in energy_loop_slow repr ((nx, ny, nz) # rest) (i + 1)
           (total_energy + energy, energy_log @ step_line repr i energy @ [CHR 0x0A]))"
| "energy_loop_slow repr path i acc = acc"

definition calculate_energy_consumption_slow :: "(real \<Rightarrow> string) \<Rightarrow> vec3 list \<Rightarrow> real \<times> string" where
  "calculate_energy_consumption_slow repr path = energy_loop_slow repr path 0 (0, [])"

fun energy_loop_opt :: "(real \<Rightarrow> string) \<Rightarrow> vec3 list \<Rightarrow> nat \<Rightarrow> real \<times> string list \<Rightarrow> real \<times> string list" where
  "energy_loop_opt repr ((cx, cy, cz) # (nx, ny, nz) # rest) i (total_energy, energy_log_parts) =
     (let dx = nx - cx; dy = ny - cy; dz = nz - cz;
          distance = sqrt (dx * dx + dy * dy + dz * dz);
          energy = distance * 10
      in energy_loop_opt repr ((nx, ny, nz) # rest) (i + 1)
           (total_energy + energy, energy_log_parts @ [step_line repr i energy]))"
| "energy_loop_opt repr path i acc = acc"

definition calculate_energy_consumption_opt :: "(real \<Rightarrow> string) \<Rightarrow> vec3 list \<Rightarrow> real \<times> string" where
  "calculate_energy_consumption_opt repr path =
     (case energy_loop_opt repr path 0 (0, []) of
        (total_energy, energy_log_parts) \<Rightarrow> (total_energy, join_lines energy_log_parts))"

section \<open>Notions used to state the properties\<close>

text \<open>
  The field of the rows \<open>is\<close> of an \<open>n\<close>-column scan: row \<open>i\<close> holds
  \<open>i * i + j * j\<close> for the columns \<open>j\<close> in order.
\<close>

definition field_rows :: "int \<Rightarrow> int list \<Rightarrow> real list" where
  "field_rows n is = concat (map (\<lambda>i. map (\<lambda>j. of_int (i * i + j * j)) (py_range n)) is)"

text \<open>The squared distance and the Euclidean distance of two points.\<close>

definition dist_sq :: "vec3 \<Rightarrow> vec3 \<Rightarrow> real" where
  "dist_sq a b = (case (a, b) of ((ax, ay, az), (bx, by, bz)) \<Rightarrow>
     (bx - ax) * (bx - ax) + (by - ay) * (by - ay) + (bz - az) * (bz - az))"

definition euclidean :: "vec3 \<Rightarrow> vec3 \<Rightarrow> real" where
  "euclidean a b = sqrt (dist_sq a b)"

text \<open>
  One move of the planner's loop body from \<open>c\<close> towards \<open>goal\<close>, and the factor
  by which a move shrinks every component of the remaining displacement.
\<close>

definition advance :: "vec3 \<Rightarrow> vec3 \<Rightarrow> vec3" where
  "advance goal c = (case (goal, c) of ((gx, gy, gz), (cx, cy, cz)) \<Rightarrow>
     (cx + (gx - cx) * step_size, cy + (gy - cy) * step_size, cz + (gz - cz) * step_size))"

definition decay :: real where
  "decay = 1 - step_size"

section \<open>The bounded history\<close>

lemma deque_append_drop:
  "deque_append m (drop (length xs - m) xs) x = drop (Suc (length xs) - m) (xs @ [x])"
proof (cases "length xs < m")
  case True
  then show ?thesis by (simp add: deque_append_def)
next
  case False
  then have le: "m \<le> length xs" by simp
  show ?thesis
  proof (cases "m = 0")
    case True
    then show ?thesis by (simp add: deque_append_def)
  next
    case False
    with le have ne: "drop (length xs - m) xs \<noteq> []" by simp
    have k: "Suc (length xs) - m = Suc (length xs - m)" using le by simp
    have "tl (drop (length xs - m) xs @ [x]) = drop (Suc (length xs - m)) xs @ [x]"
      using ne by (simp add: drop_Suc tl_drop)
    also have "\<dots> = drop (Suc (length xs - m)) (xs @ [x])"
      using le False by simp
    finally show ?thesis using le k by (simp add: deque_append_def Let_def)
  qed
qed

lemma update_many_opt_snoc:
  "update_many_opt self (dts @ [dt]) = update_position_opt (update_many_opt self dts) dt"
  by (simp add: update_many_opt_def)

lemma maxlen_update_position_opt: "maxlen (update_position_opt self dt) = maxlen self"
  by (simp add: update_position_opt_def Let_def split: prod.splits)

lemma maxlen_update_many_opt: "maxlen (update_many_opt self dts) = maxlen self"
  by (induction dts rule: rev_induct) (simp_all add: update_many_opt_def maxlen_update_position_opt)

lemma history_update_position_opt:
  "movement_history (update_position_opt self dt) =
     deque_append (maxlen self) (movement_history self) (position (update_position_opt self dt))"
  by (simp add: update_position_opt_def Let_def split: prod.splits)

lemma snapshots_snoc:
  "snapshots self (dts @ [dt]) = snapshots self dts @ [position (update_many_opt self (dts @ [dt]))]"
  by (simp add: snapshots_def)

lemma history_update_many_opt:
  assumes "movement_history self = []"
  shows "movement_history (update_many_opt self dts) =
           drop (length dts - maxlen self) (snapshots self dts)"
proof (induction dts rule: rev_induct)
  case Nil
  then show ?case using assms by (simp add: update_many_opt_def snapshots_def)
next
  case (snoc dt dts)
  have len: "length (snapshots self dts) = length dts" by (simp add: snapshots_def)
  show ?case
    using deque_append_drop [of "maxlen self" "snapshots self dts"
            "position (update_many_opt self (dts @ [dt]))"]
    by (simp add: update_many_opt_snoc history_update_position_opt snoc.IH
          maxlen_update_many_opt snapshots_snoc len)
qed

lemma position_update_many_opt:
  "position self = (px, py, pz) \<Longrightarrow> velocity self = (vx, vy, vz) \<Longrightarrow>
   position (update_many_opt self dts) = (px + vx * sum_list dts, py + vy * sum_list dts, pz + vz * sum_list dts)
   \<and> velocity (update_many_opt self dts) = (vx, vy, vz)"
proof (induction dts rule: rev_induct)
  case Nil
  then show ?case by (simp add: update_many_opt_def)
next
  case (snoc dt dts)
  then show ?case
    by (simp add: update_many_opt_snoc update_position_opt_def Let_def algebra_simps)
qed

lemma scan_environment_opt_frame:
  "scan_environment_opt s n = Inr (s', r) \<Longrightarrow> s' = s\<lparr>sensor_data := r\<rparr>"
  by (auto simp add: scan_environment_opt_def Let_def split: sum.splits prod.splits)

text \<open>
  Claim C3. An agent created by \<open>MechanicalDogOptimized\<close> with capacity \<open>M\<close> has, after
  any run of \<open>N\<close> position updates (whatever velocity was set), a history of length
  \<open>min N M\<close>, and the history is the last \<open>M\<close> recorded positions in order: the oldest
  are dropped first. After 1000 updates with \<open>M = 100\<close> the oldest entry kept is the
  position recorded by update number 901. The bound \<open>length history \<le> maxlen\<close> is kept
  by a position update, and a scan changes neither the history nor the bound; the other
  operations return no state. The slow class has no capacity: its history is a list
  that grows by one entry per update.
\<close>

theorem history_capacity_fifo:
  assumes "MechanicalDogOptimized nm M = Inr d0"
  shows "length (movement_history (update_many_opt (d0\<lparr>velocity := v\<rparr>) dts)) = min (length dts) (nat M)
    \<and> movement_history (update_many_opt (d0\<lparr>velocity := v\<rparr>) dts) =
        drop (length dts - nat M)
          (map (\<lambda>k. position (update_many_opt (d0\<lparr>velocity := v\<rparr>) (take (Suc k) dts))) [0..<length dts])
    \<and> (M = 100 \<and> length dts = 1000 \<longrightarrow>
         hd (movement_history (update_many_opt (d0\<lparr>velocity := v\<rparr>) dts)) =
         position (update_many_opt (d0\<lparr>velocity := v\<rparr>) (take 901 dts)))
    \<and> (length (movement_history s) \<le> maxlen s \<longrightarrow>
         length (movement_history (update_position_opt s dt)) \<le> maxlen (update_position_opt s dt))
    \<and> (scan_environment_opt s n = Inr (s', r) \<longrightarrow>
         movement_history s' = movement_history s \<and> maxlen s' = maxlen s)"
proof -
  let ?d = "d0\<lparr>velocity := v\<rparr>"
  from assms have d0: "movement_history ?d = []" "maxlen ?d = nat M"
    by (auto simp add: MechanicalDogOptimized_def split: if_splits)
  have hist: "movement_history (update_many_opt ?d dts) = drop (length dts - nat M) (snapshots ?d dts)"
    using history_update_many_opt [OF d0(1), of dts] d0(2) by simp
  have len: "length (snapshots ?d dts) = length dts" by (simp add: snapshots_def)
  have a: "length (movement_history (update_many_opt ?d dts)) = min (length dts) (nat M)"
    using hist len by simp
  have b: "movement_history (update_many_opt ?d dts) =
        drop (length dts - nat M)
          (map (\<lambda>k. position (update_many_opt ?d (take (Suc k) dts))) [0..<length dts])"
    using hist by (simp add: snapshots_def)
  have c: "hd (movement_history (update_many_opt ?d dts)) = position (update_many_opt ?d (take 901 dts))"
    if "M = 100 \<and> length dts = 1000"
  proof -
    have "hd (drop 900 (snapshots ?d dts)) = snapshots ?d dts ! 900"
      using that len by (simp add: hd_drop_conv_nth)
    also have "\<dots> = position (update_many_opt ?d (take 901 dts))"
      using that by (simp add: snapshots_def)
    finally show ?thesis using hist that by simp
  qed
  have d: "length (movement_history (update_position_opt s dt)) \<le> maxlen (update_position_opt s dt)"
    if "length (movement_history s) \<le> maxlen s"
    using that by (simp add: history_update_position_opt maxlen_update_position_opt deque_append_def Let_def)
  have e: "movement_history s' = movement_history s \<and> maxlen s' = maxlen s"
    if "scan_environment_opt s n = Inr (s', r)"
    using scan_environment_opt_frame [OF that] by simp
  from a b c d e show ?thesis by blast
qed

theorem history_capacity_fifo_witness:
  "MechanicalDogOptimized ''Test'' 100 =
     Inr \<lparr> name = ''Test'', position = (0, 0, 0), velocity = (0, 0, 0),
           leg_positions = replicate 4 (0, 0, 0), sensor_data = [],
           movement_history = [], maxlen = 100 \<rparr>
   \<and> length (movement_history (update_many_opt
        \<lparr> name = ''Test'', position = (0, 0, 0), velocity = (1, 1, 0),
          leg_positions = replicate 4 (0, 0, 0), sensor_data = [],
          movement_history = [], maxlen = 100 \<rparr> (replicate 1000 (1 / 10)))) = 100
   \<and> hd (movement_history (update_many_opt
        \<lparr> name = ''Test'', position = (0, 0, 0), velocity = (1, 1, 0),
          leg_positions = replicate 4 (0, 0, 0), sensor_data = [],
          movement_history = [], maxlen = 100 \<rparr> (replicate 1000 (1 / 10)))) = (901 / 10, 901 / 10, 0)"
proof -
  let ?d0 = "\<lparr> name = ''Test'', position = (0, 0, 0), velocity = (0, 0, 0),
           leg_positions = replicate 4 (0, 0, 0), sensor_data = [],
           movement_history = [], maxlen = 100 \<rparr>"
  have c: "MechanicalDogOptimized ''Test'' 100 = Inr ?d0"
    by (simp add: MechanicalDogOptimized_def)
  have p: "position (update_many_opt (?d0\<lparr>velocity := (1, 1, 0)\<rparr>) (replicate 901 (1 / 10))) = (901 / 10, 901 / 10, 0)"
    using position_update_many_opt [of "?d0\<lparr>velocity := (1, 1, 0)\<rparr>" 0 0 0 1 1 0 "replicate 901 (1 / 10)"]
    by (simp add: sum_list_replicate)
  note t = history_capacity_fifo [OF c, of "(1, 1, 0)" "replicate 1000 (1 / 10)"]
  have l: "length (movement_history (update_many_opt (?d0\<lparr>velocity := (1, 1, 0)\<rparr>) (replicate 1000 (1 / 10)))) = 100"
    using t [THEN conjunct1] by simp
  have h: "hd (movement_history (update_many_opt (?d0\<lparr>velocity := (1, 1, 0)\<rparr>) (replicate 1000 (1 / 10)))) =
           position (update_many_opt (?d0\<lparr>velocity := (1, 1, 0)\<rparr>) (take 901 (replicate 1000 (1 / 10))))"
    using t [THEN conjunct2, THEN conjunct2, THEN conjunct1] by simp
  show ?thesis using c l h p by simp
qed

section \<open>The field scanner\<close>

lemma scan_inner_opt_fill:
  "length js \<le> length zs \<Longrightarrow>
   scan_inner_opt isq js (done @ zs, length done) =
     Inr (done @ map (\<lambda>j. of_int (isq + j * j)) js @ drop (length js) zs, length done + length js)"
proof (induction js arbitrary: "done" zs)
  case Nil
  then show ?case by simp
next
  case (Cons j js)
  then obtain z zs' where zs: "zs = z # zs'" by (cases zs) auto
  with Cons.prems have le: "length js \<le> length zs'" by simp
  have "scan_inner_opt isq (j # js) (done @ zs, length done) =
        scan_inner_opt isq js ((done @ [of_int (isq + j * j)]) @ zs', length (done @ [of_int (isq + j * j)]))"
    by (simp add: zs py_setitem_def)
  also have "\<dots> = Inr ((done @ [of_int (isq + j * j)]) @ map (\<lambda>j. of_int (isq + j * j)) js @ drop (length js) zs',
                       length (done @ [of_int (isq + j * j)]) + length js)"
    by (rule Cons.IH [OF le])
  finally show ?case by (simp add: zs)
qed

lemma length_field_rows: "length (field_rows n is) = length is * nat n"
  by (induction "is") (simp_all add: field_rows_def py_range_def)

lemma scan_outer_opt_fill:
  "length is * nat n \<le> length zs \<Longrightarrow>
   scan_outer_opt n is (done @ zs, length done) =
     Inr (done @ field_rows n is @ drop (length is * nat n) zs, length done + length is * nat n)"
proof (induction "is" arbitrary: "done" zs)
  case Nil
  then show ?case by (simp add: field_rows_def)
next
  case (Cons i "is")
  let ?row = "map (\<lambda>j. of_int (i * i + j * j)) (py_range n) :: real list"
  have lr: "length (py_range n) = nat n" by (simp add: py_range_def)
  from Cons.prems have le1: "length (py_range n) \<le> length zs" by (simp add: lr)
  from Cons.prems have le2: "length is * nat n \<le> length (drop (nat n) zs)" by simp
  have "scan_inner_opt (i * i) (py_range n) (done @ zs, length done) =
          Inr ((done @ ?row) @ drop (nat n) zs, length (done @ ?row))"
    using scan_inner_opt_fill [OF le1, of "i * i" "done"] by (simp add: lr)
  then have "scan_outer_opt n (i # is) (done @ zs, length done) =
          scan_outer_opt n is ((done @ ?row) @ drop (nat n) zs, length (done @ ?row))"
    by simp
  also have "\<dots> = Inr ((done @ ?row) @ field_rows n is @ drop (length is * nat n) (drop (nat n) zs),
                      length (done @ ?row) + length is * nat n)"
    by (rule Cons.IH [OF le2])
  finally show ?case by (simp add: field_rows_def lr add.commute)
qed

lemma scan_environment_opt_eq:
  "scan_environment_opt self n =
     Inr (self\<lparr>sensor_data := field_rows n (py_range n) @ drop (nat n * nat n) (replicate (nat (n * n)) 0)\<rparr>,
          field_rows n (py_range n) @ drop (nat n * nat n) (replicate (nat (n * n)) 0))"
proof -
  have le: "length (py_range n) * nat n \<le> length (replicate (nat (n * n)) (0::real))"
    by (cases "0 \<le> n") (simp_all add: py_range_def nat_mult_distrib)
  show ?thesis
    using scan_outer_opt_fill [OF le, of "[]"]
    by (simp add: scan_environment_opt_def Let_def py_range_def)
qed

lemma scan_environment_opt_nonneg:
  "0 \<le> n \<Longrightarrow> scan_environment_opt self n =
     Inr (self\<lparr>sensor_data := field_rows n (py_range n)\<rparr>, field_rows n (py_range n))"
  by (simp add: scan_environment_opt_eq nat_mult_distrib)

lemma scan_environment_opt_neg:
  "n < 0 \<Longrightarrow> scan_environment_opt self n =
     Inr (self\<lparr>sensor_data := replicate (nat (n * n)) 0\<rparr>, replicate (nat (n * n)) 0)"
  by (simp add: scan_environment_opt_eq field_rows_def py_range_def)

lemma scan_readings_slow_eq: "scan_readings_slow n = field_rows n (py_range n)"
  by (simp add: scan_readings_slow_def field_rows_def power2_eq_square)

lemma nth_concat_rows:
  "\<forall>xs \<in> set xss. length xs = n \<Longrightarrow> i < length xss \<Longrightarrow> j < n \<Longrightarrow>
   concat xss ! (i * n + j) = xss ! i ! j"
proof (induction xss arbitrary: i)
  case Nil
  then show ?case by simp
next
  case (Cons xs xss)
  show ?case
  proof (cases i)
    case 0
    then show ?thesis using Cons.prems by (simp add: nth_append)
  next
    case (Suc i')
    with Cons.prems have "concat xss ! (i' * n + j) = xss ! i' ! j"
      by (intro Cons.IH) simp_all
    then show ?thesis using Suc Cons.prems by (simp add: nth_append)
  qed
qed

lemma field_rows_nth:
  assumes "i < nat n" "j < nat n"
  shows "field_rows n (py_range n) ! (i * nat n + j) = real (i * i + j * j)"
proof -
  let ?xss = "map (\<lambda>a. map (\<lambda>b. of_int (a * a + b * b)) (py_range n)) (py_range n) :: real list list"
  have "concat ?xss ! (i * nat n + j) = ?xss ! i ! j"
    using assms by (intro nth_concat_rows) (simp_all add: py_range_def)
  then show ?thesis using assms by (simp add: field_rows_def py_range_def)
qed

lemma scan_environment_opt_spec:
  assumes "0 \<le> n"
  shows "\<exists>r. scan_environment_opt self n = Inr (self\<lparr>sensor_data := r\<rparr>, r)
           \<and> scan_environment_opt (self\<lparr>sensor_data := r\<rparr>) n = Inr (self\<lparr>sensor_data := r\<rparr>, r)
           \<and> length r = nat n * nat n
           \<and> (\<forall>i<nat n. \<forall>j<nat n. r ! (i * nat n + j) = real (i * i + j * j))"
proof -
  have "length (py_range n) = nat n" by (simp add: py_range_def)
  then show ?thesis
    using assms by (simp add: scan_environment_opt_nonneg length_field_rows field_rows_nth)
qed

lemma scan_environment_slow_spec:
  "snd (scan_environment_slow self n) = field_rows n (py_range n)
   \<and> sensor_data (fst (scan_environment_slow self n)) = sensor_data self @ field_rows n (py_range n)"
  by (simp add: scan_environment_slow_def Let_def scan_readings_slow_eq)

text \<open>
  Claim C1. For \<open>n \<ge> 0\<close> a scan returns \<open>n\<^sup>2\<close> values, the value at index
  \<open>i * n + j\<close> being \<open>i\<^sup>2 + j\<^sup>2\<close>, and replaces the stored field. The optimized
  class does all of it (\<open>scan_environment_opt_spec\<close>: the values, the length, no
  error, and a second scan leaves the same field). The slow class returns the same
  sequence but extends the stored field (\<open>scan_environment_slow_spec\<close>), so the
  field grows with every scan: after two scans with \<open>n = 2\<close> on a fresh agent it has
  eight entries, not four.
\<close>

theorem scan_environment_slow_grows:
  "snd (scan_environment_slow (fst (scan_environment_slow (MechanicalDog ''Test'') 2)) 2) = [0, 1, 1, 2]
   \<and> sensor_data (fst (scan_environment_slow (fst (scan_environment_slow (MechanicalDog ''Test'') 2)) 2))
       = [0, 1, 1, 2, 0, 1, 1, 2]"
  by (simp add: scan_environment_slow_def Let_def scan_readings_slow_def py_range_def
        MechanicalDog_def upt_conv_Cons)

text \<open>
  Claim C10. For every negative \<open>n\<close> the optimized scan raises no error: it returns,
  and stores as the whole field, \<open>n\<^sup>2\<close> entries that are all zero (the list it
  allocated, which the empty loops never write), so the result is neither empty nor an
  error.
\<close>

theorem scan_environment_opt_negative:
  assumes "n < 0"
  shows "scan_environment_opt self n =
           Inr (self\<lparr>sensor_data := replicate (nat (n * n)) 0\<rparr>, replicate (nat (n * n)) 0)
         \<and> int (length (replicate (nat (n * n)) (0::real))) = n * n
         \<and> replicate (nat (n * n)) (0::real) \<noteq> []"
proof -
  from assms have "0 < n * n" by (simp add: mult_neg_neg)
  then show ?thesis using assms by (simp add: scan_environment_opt_neg)
qed

theorem scan_environment_opt_negative_witness:
  "scan_environment_opt (MechanicalDog ''Test'') (- 2) =
     Inr ((MechanicalDog ''Test'')\<lparr>sensor_data := [0, 0, 0, 0]\<rparr>, [0, 0, 0, 0])"
  using scan_environment_opt_negative [of "- 2" "MechanicalDog ''Test''"]
  by (simp add: numeral_eq_Suc)

section \<open>The obstacle classifier\<close>

lemma fold_insert_if:
  "fold (\<lambda>r obs. if P r then insert r obs else obs) xs A = A \<union> {v \<in> set xs. P v}"
  by (induction xs arbitrary: A) auto

lemma fold_append_new:
  "distinct acc \<Longrightarrow>
   distinct (fold (\<lambda>r obs. if P r then (if r \<notin> set obs then obs @ [r] else obs) else obs) xs acc)
   \<and> set (fold (\<lambda>r obs. if P r then (if r \<notin> set obs then obs @ [r] else obs) else obs) xs acc)
       = set acc \<union> {v \<in> set xs. P v}"
proof (induction xs arbitrary: acc)
  case Nil
  then show ?case by simp
next
  case (Cons x xs)
  let ?acc' = "if P x then (if x \<notin> set acc then acc @ [x] else acc) else acc"
  from Cons.prems have "distinct ?acc'" by simp
  from Cons.IH [OF this] show ?case by auto
qed

text \<open>
  Claim C4, amended. \<open>find_obstacles\<close> takes the field only; the threshold is the
  constant 1000 and cannot be passed. The optimized class returns the set of the values
  of the field above 1000; the slow class returns a list without repetitions of the
  same values. A value equal to 1000 is left out, the empty field gives the empty
  result, and repeated values give one entry. A call with a \<open>threshold\<close> keyword
  raises \<open>TypeError\<close>.
\<close>

theorem find_obstacles_fixed_threshold:
  "find_obstacles_opt field = {v \<in> set field. 1000 < v}
   \<and> set (find_obstacles_slow field) = {v \<in> set field. 1000 < v}
   \<and> distinct (find_obstacles_slow field)
   \<and> find_obstacles_opt [] = {} \<and> find_obstacles_slow [] = []
   \<and> find_obstacles_opt [500, 1200, 800, 1500, 900, 2000] = {1200, 1500, 2000}
   \<and> find_obstacles_slow [500, 1200, 800, 1500, 900, 2000] = [1200, 1500, 2000]
   \<and> find_obstacles_opt [1500, 1500] = {1500}
   \<and> find_obstacles_slow [1500, 1500] = [1500]
   \<and> find_obstacles_opt [1000, 1000.5] = {1000.5}
   \<and> find_obstacles_call_opt field None = Inr (find_obstacles_opt field)
   \<and> find_obstacles_call_slow field None = Inr (find_obstacles_slow field)
   \<and> find_obstacles_call_opt field (Some t) = Inl TypeError
   \<and> find_obstacles_call_slow field (Some t) = Inl TypeError"
proof -
  have a: "find_obstacles_opt field = {v \<in> set field. 1000 < v}"
    by (simp add: find_obstacles_opt_def threshold_def fold_insert_if)
  have b: "set (find_obstacles_slow field) = {v \<in> set field. 1000 < v}"
       "distinct (find_obstacles_slow field)"
    using fold_append_new [of "[]" "\<lambda>r. r > threshold" field]
    by (simp_all add: find_obstacles_slow_def threshold_def)
  have c: "find_obstacles_opt [500, 1200, 800, 1500, 900, 2000] = {1200, 1500, 2000}"
       "find_obstacles_opt [1500, 1500] = {1500}" "find_obstacles_opt [1000, 1000.5] = {1000.5}"
       "find_obstacles_opt [] = {}"
    by (auto simp add: find_obstacles_opt_def threshold_def)
  have d: "find_obstacles_slow [500, 1200, 800, 1500, 900, 2000] = [1200, 1500, 2000]"
       "find_obstacles_slow [1500, 1500] = [1500]" "find_obstacles_slow [] = []"
    by (simp_all add: find_obstacles_slow_def threshold_def)
  have e: "find_obstacles_call_opt field None = Inr (find_obstacles_opt field)"
     "find_obstacles_call_slow field None = Inr (find_obstacles_slow field)"
     "find_obstacles_call_opt field (Some t) = Inl TypeError"
     "find_obstacles_call_slow field (Some t) = Inl TypeError"
    by (simp_all add: find_obstacles_call_opt_def find_obstacles_call_slow_def)
  from a b c d e show ?thesis by simp
qed

text \<open>
  Claim C4 as stated fails: the call \<open>find_obstacles(field, threshold=1000)\<close> of the
  claim's example raises \<open>TypeError\<close> in both classes instead of returning the set.
\<close>

theorem find_obstacles_threshold_keyword_rejected:
  "find_obstacles_call_opt [500, 1200, 800, 1500, 900, 2000] (Some 1000) = Inl TypeError
   \<and> find_obstacles_call_slow [500, 1200, 800, 1500, 900, 2000] (Some 1000) = Inl TypeError
   \<and> find_obstacles_call_opt [500, 1200, 800, 1500, 900, 2000] (Some 1000) \<noteq> Inr {1200, 1500, 2000}"
  by (simp add: find_obstacles_call_opt_def find_obstacles_call_slow_def)

section \<open>The limb distance estimator\<close>

lemma py_getitem_four:
  assumes "length xs = 4"
  shows "py_getitem xs i =
     (if 0 \<le> i \<and> i < 4 then Inr (xs ! nat i)
      else if - 4 \<le> i \<and> i < 0 then Inr (xs ! nat (i + 4))
      else Inl IndexError)"
  using assms by (auto simp add: py_getitem_def add.commute)

lemma calculate_leg_kinematics_opt_Inr:
  "py_getitem (leg_positions self) i = Inr l \<Longrightarrow>
   calculate_leg_kinematics_opt self i t = Inr (euclidean l t)"
  by (cases l, cases t) (simp add: calculate_leg_kinematics_opt_def euclidean_def dist_sq_def Let_def)

lemma calculate_leg_kinematics_slow_eq_opt:
  "calculate_leg_kinematics_slow self i t = calculate_leg_kinematics_opt self i t"
  by (simp add: calculate_leg_kinematics_slow_def calculate_leg_kinematics_opt_def Let_def
        power2_eq_square split: sum.splits prod.splits)

text \<open>
  Claim C6, amended. With the four limbs of the constructors, the limb distance fails,
  with \<open>IndexError\<close>, exactly when the index is outside \<open>[-4, 4)\<close>. For an index in
  \<open>[0, 4)\<close> it is the Euclidean distance from that limb to the target; for an index in
  \<open>[-4, 0)\<close> Python counts from the end and the result is the distance from limb
  \<open>index + 4\<close>. Both classes compute the same value, and neither writes to the state.
\<close>

theorem limb_distance_index_range:
  assumes "length (leg_positions self) = 4"
  shows "(calculate_leg_kinematics_opt self i t = Inl IndexError \<longleftrightarrow> i < - 4 \<or> 4 \<le> i)
    \<and> ((\<exists>d. calculate_leg_kinematics_opt self i t = Inr d) \<longleftrightarrow> - 4 \<le> i \<and> i < 4)
    \<and> (0 \<le> i \<and> i < 4 \<longrightarrow>
         calculate_leg_kinematics_opt self i t = Inr (euclidean (leg_positions self ! nat i) t))
    \<and> (- 4 \<le> i \<and> i < 0 \<longrightarrow>
         calculate_leg_kinematics_opt self i t = Inr (euclidean (leg_positions self ! nat (i + 4)) t))
    \<and> calculate_leg_kinematics_slow self i t = calculate_leg_kinematics_opt self i t"
proof -
  note g = py_getitem_four [OF assms, of i]
  have a: "calculate_leg_kinematics_opt self i t = Inr (euclidean (leg_positions self ! nat i) t)"
    if "0 \<le> i \<and> i < 4"
    using that g by (intro calculate_leg_kinematics_opt_Inr) simp
  have b: "calculate_leg_kinematics_opt self i t = Inr (euclidean (leg_positions self ! nat (i + 4)) t)"
    if "- 4 \<le> i \<and> i < 0"
    using that g by (intro calculate_leg_kinematics_opt_Inr) simp
  have c: "calculate_leg_kinematics_opt self i t = Inl IndexError" if "i < - 4 \<or> 4 \<le> i"
    using that g by (auto simp add: calculate_leg_kinematics_opt_def)
  have cases: "(0 \<le> i \<and> i < 4) \<or> (- 4 \<le> i \<and> i < 0) \<or> (i < - 4 \<or> 4 \<le> i)" by arith
  have d: "calculate_leg_kinematics_opt self i t = Inl IndexError \<longleftrightarrow> i < - 4 \<or> 4 \<le> i"
    using a b c cases by (metis Inl_Inr_False)
  have e: "(\<exists>d. calculate_leg_kinematics_opt self i t = Inr d) \<longleftrightarrow> - 4 \<le> i \<and> i < 4"
    using a b c cases by (metis Inl_Inr_False not_less)
  from a b d e calculate_leg_kinematics_slow_eq_opt [of self i t] show ?thesis by blast
qed

theorem limb_distance_index_range_witness:
  "calculate_leg_kinematics_opt (MechanicalDog ''Test'') 0 (3, 4, 0) = Inr 5
   \<and> calculate_leg_kinematics_opt (MechanicalDog ''Test'') (- 4) (3, 4, 0) = Inr 5
   \<and> calculate_leg_kinematics_opt (MechanicalDog ''Test'') 4 (3, 4, 0) = Inl IndexError
   \<and> calculate_leg_kinematics_opt (MechanicalDog ''Test'') (- 5) (3, 4, 0) = Inl IndexError
   \<and> calculate_leg_kinematics_slow (MechanicalDog ''Test'') 3 (3, 4, 0) = Inr 5"
proof -
  have len: "length (leg_positions (MechanicalDog ''Test'')) = 4"
    by (simp add: MechanicalDog_def)
  have legs: "leg_positions (MechanicalDog ''Test'') = [(0, 0, 0), (0, 0, 0), (0, 0, 0), (0, 0, 0)]"
    by (simp add: MechanicalDog_def numeral_eq_Suc)
  have e: "euclidean (0, 0, 0) (3, 4, 0) = 5"
  proof -
    have "sqrt 25 = sqrt (5\<^sup>2)" by simp
    then show ?thesis by (simp add: euclidean_def dist_sq_def del: real_sqrt_abs)
  qed
  show ?thesis
    using limb_distance_index_range [OF len, of 0 "(3, 4, 0)"]
          limb_distance_index_range [OF len, of "- 4" "(3, 4, 0)"]
          limb_distance_index_range [OF len, of 4 "(3, 4, 0)"]
          limb_distance_index_range [OF len, of "- 5" "(3, 4, 0)"]
          limb_distance_index_range [OF len, of 3 "(3, 4, 0)"]
    by (simp add: legs e)
qed

text \<open>
  Claim C6 as stated fails: the index \<open>-1\<close> is outside \<open>[0, 4)\<close>, and both classes
  return a distance (that of the last limb) instead of raising \<open>IndexError\<close>.
\<close>

theorem limb_distance_negative_index_accepted:
  "calculate_leg_kinematics_opt (MechanicalDog ''Test'') (- 1) (3, 4, 0) = Inr 5
   \<and> calculate_leg_kinematics_slow (MechanicalDog ''Test'') (- 1) (3, 4, 0) = Inr 5"
  by (simp add: calculate_leg_kinematics_opt_def calculate_leg_kinematics_slow_def
        MechanicalDog_def py_getitem_def)

section \<open>The motion integrator\<close>

text \<open>
  Claim C7. For every \<open>dt\<close>, negative ones too, one position update from position
  \<open>p0\<close> with velocity \<open>v\<close> sets the position to \<open>p0 + v * dt\<close> in each component
  (exactly, so within any tolerance) and records it in the history; the velocity, the
  limbs, the sensor field, the name and the capacity are unchanged. It holds for both
  classes.
\<close>

theorem update_position_frame:
  assumes "position self = (px, py, pz)" and "velocity self = (vx, vy, vz)"
    and "position self' = (px, py, pz)" and "velocity self' = (vx, vy, vz)"
  shows "position (update_position_opt self dt) = (px + vx * dt, py + vy * dt, pz + vz * dt)
    \<and> movement_history (update_position_opt self dt) =
        deque_append (maxlen self) (movement_history self) (px + vx * dt, py + vy * dt, pz + vz * dt)
    \<and> velocity (update_position_opt self dt) = velocity self
    \<and> leg_positions (update_position_opt self dt) = leg_positions self
    \<and> sensor_data (update_position_opt self dt) = sensor_data self
    \<and> name (update_position_opt self dt) = name self
    \<and> maxlen (update_position_opt self dt) = maxlen self
    \<and> position (update_position_slow self' dt) = (px + vx * dt, py + vy * dt, pz + vz * dt)
    \<and> movement_history (update_position_slow self' dt) =
        movement_history self' @ [(px + vx * dt, py + vy * dt, pz + vz * dt)]
    \<and> velocity (update_position_slow self' dt) = velocity self'
    \<and> leg_positions (update_position_slow self' dt) = leg_positions self'
    \<and> sensor_data (update_position_slow self' dt) = sensor_data self'
    \<and> name (update_position_slow self' dt) = name self'
    \<and> mechanical_dog.more (update_position_slow self' dt) = mechanical_dog.more self'"
  using assms by (simp add: update_position_opt_def update_position_slow_def Let_def)

theorem update_position_frame_witness:
  "position (update_position_opt
      \<lparr> name = ''Test'', position = (1, 2, 3), velocity = (1, 2, 1 / 2),
        leg_positions = replicate 4 (0, 0, 0), sensor_data = [7],
        movement_history = [], maxlen = 1000 \<rparr> (- 2)) = (- 1, - 2, 2)
   \<and> position (update_position_slow
      \<lparr> name = ''Test'', position = (1, 2, 3), velocity = (1, 2, 1 / 2),
        leg_positions = replicate 4 (0, 0, 0), sensor_data = [7],
        movement_history = [] \<rparr> (- 2)) = (- 1, - 2, 2)"
  using update_position_frame [of
      "\<lparr> name = ''Test'', position = (1, 2, 3), velocity = (1, 2, 1 / 2),
        leg_positions = replicate 4 (0, 0, 0), sensor_data = [7],
        movement_history = [], maxlen = 1000 \<rparr>" 1 2 3 1 2 "1 / 2"
      "\<lparr> name = ''Test'', position = (1, 2, 3), velocity = (1, 2, 1 / 2),
        leg_positions = replicate 4 (0, 0, 0), sensor_data = [7],
        movement_history = [] \<rparr>" "- 2"]
  by simp

section \<open>The path planner\<close>

text \<open>
  Claim C8. The path does not depend on the \<open>obstacles\<close> argument: for any two
  obstacle collections the planner returns the same path, in both classes.
\<close>

theorem plan_path_ignores_obstacles:
  "plan_path_opt start goal o1 = plan_path_opt start goal o2
   \<and> plan_path_slow start goal o1 = plan_path_slow start goal o2"
  by (simp add: plan_path_opt_def plan_path_slow_def)

section \<open>The energy estimator\<close>

lemma map_upt_shift: "map g [0..<Suc m] = g 0 # map (\<lambda>k. g (Suc k)) [0..<m]"
proof -
  have "[0..<Suc m] = 0 # map Suc [0..<m]"
    by (simp add: upt_conv_Cons map_Suc_upt del: upt_Suc)
  then show ?thesis by (simp add: comp_def del: upt_Suc)
qed

lemma energy_loop_opt_eq:
  "energy_loop_opt repr path i (t, parts) =
     (t + (\<Sum>k<length path - 1. euclidean (path ! k) (path ! Suc k) * 10),
      parts @ map (\<lambda>k. step_line repr (i + k) (euclidean (path ! k) (path ! Suc k) * 10))
                  [0..<length path - 1])"
proof (induction path arbitrary: i t parts)
  case Nil
  then show ?case by simp
next
  case (Cons c rest)
  show ?case
  proof (cases rest)
    case Nil
    then show ?thesis by (cases c) simp
  next
    case (Cons n rest')
    obtain cx cy cz where c: "c = (cx, cy, cz)" by (cases c) auto
    obtain nx ny nz where n: "n = (nx, ny, nz)" by (cases n) auto
    have e: "sqrt ((nx - cx) * (nx - cx) + (ny - cy) * (ny - cy) + (nz - cz) * (nz - cz)) = euclidean c n"
      by (simp add: euclidean_def dist_sq_def c n)
    have "energy_loop_opt repr (c # rest) i (t, parts) =
          energy_loop_opt repr rest (i + 1)
            (t + euclidean c n * 10, parts @ [step_line repr i (euclidean c n * 10)])"
      using e by (simp add: Cons c n Let_def)
    also have "\<dots> = (t + euclidean c n * 10 + (\<Sum>k<length rest - 1. euclidean (rest ! k) (rest ! Suc k) * 10),
        (parts @ [step_line repr i (euclidean c n * 10)]) @
        map (\<lambda>k. step_line repr (i + 1 + k) (euclidean (rest ! k) (rest ! Suc k) * 10)) [0..<length rest - 1])"
      by (rule Cons.IH)
    finally show ?thesis
      by (simp add: Cons sum.lessThan_Suc_shift map_upt_shift del: upt_Suc sum.lessThan_Suc)
  qed
qed

lemma energy_loop_slow_eq:
  "energy_loop_slow repr path i (t, lg) =
     (t + (\<Sum>k<length path - 1. euclidean (path ! k) (path ! Suc k) * 10),
      lg @ concat (map (\<lambda>k. step_line repr (i + k) (euclidean (path ! k) (path ! Suc k) * 10) @ [CHR 0x0A])
                  [0..<length path - 1]))"
proof (induction path arbitrary: i t lg)
  case Nil
  then show ?case by simp
next
  case (Cons c rest)
  show ?case
  proof (cases rest)
    case Nil
    then show ?thesis by (cases c) simp
  next
    case (Cons n rest')
    obtain cx cy cz where c: "c = (cx, cy, cz)" by (cases c) auto
    obtain nx ny nz where n: "n = (nx, ny, nz)" by (cases n) auto
    have e: "sqrt ((nx - cx)\<^sup>2 + (ny - cy)\<^sup>2 + (nz - cz)\<^sup>2) = euclidean c n"
      by (simp add: euclidean_def dist_sq_def c n power2_eq_square)
    have "energy_loop_slow repr (c # rest) i (t, lg) =
          energy_loop_slow repr rest (i + 1)
            (t + euclidean c n * 10, lg @ step_line repr i (euclidean c n * 10) @ [CHR 0x0A])"
      using e by (simp add: Cons c n Let_def)
    also have "\<dots> = (t + euclidean c n * 10 + (\<Sum>k<length rest - 1. euclidean (rest ! k) (rest ! Suc k) * 10),
        (lg @ step_line repr i (euclidean c n * 10) @ [CHR 0x0A]) @
        concat (map (\<lambda>k. step_line repr (i + 1 + k) (euclidean (rest ! k) (rest ! Suc k) * 10) @ [CHR 0x0A])
           [0..<length rest - 1]))"
      by (rule Cons.IH)
    finally show ?thesis
      by (simp add: Cons sum.lessThan_Suc_shift map_upt_shift del: upt_Suc sum.lessThan_Suc)
  qed
qed

lemma euclidean_unit_x: "euclidean (x, y, z) (x + 1, y, z) = 1"
  by (simp add: euclidean_def dist_sq_def)


section \<open>Convergence of the planner\<close>

text \<open>
  Bounds for the powers of \<open>decay\<close> that decide where the loop stops, by repeated
  squaring with twelve decimals.
\<close>

lemma pow_add_bounds:
  fixes x :: real
  assumes "l1 \<le> x ^ m \<and> x ^ m \<le> u1" and "l2 \<le> x ^ n \<and> x ^ n \<le> u2"
    and "0 \<le> l1" and "0 \<le> l2" and "l' \<le> l1 * l2" and "u1 * u2 \<le> u'"
    and "k = m + n"
  shows "l' \<le> x ^ k \<and> x ^ k \<le> u'"
proof -
  have "l1 * l2 \<le> x ^ m * x ^ n"
    using assms by (intro mult_mono) auto
  moreover have "x ^ m * x ^ n \<le> u1 * u2"
    using assms by (intro mult_mono) auto
  ultimately show ?thesis using assms(5,6,7) by (simp add: power_add)
qed

lemma decay_pow_1: "0.990000000000 \<le> decay ^ 1 \<and> decay ^ 1 \<le> 0.990000000000"
  by (simp add: decay_def step_size_def)

lemma decay_pow_2: "0.980100000000 \<le> decay ^ 2 \<and> decay ^ 2 \<le> 0.980100000000"
  by (rule pow_add_bounds [OF decay_pow_1 decay_pow_1]) simp_all

lemma decay_pow_4: "0.960596010000 \<le> decay ^ 4 \<and> decay ^ 4 \<le> 0.960596010000"
  by (rule pow_add_bounds [OF decay_pow_2 decay_pow_2]) simp_all

lemma decay_pow_8: "0.922744694427 \<le> decay ^ 8 \<and> decay ^ 8 \<le> 0.922744694428"
  by (rule pow_add_bounds [OF decay_pow_4 decay_pow_4]) simp_all

lemma decay_pow_16: "0.851457771093 \<le> decay ^ 16 \<and> decay ^ 16 \<le> 0.851457771096"
  by (rule pow_add_bounds [OF decay_pow_8 decay_pow_8]) simp_all

lemma decay_pow_32: "0.724980335954 \<le> decay ^ 32 \<and> decay ^ 32 \<le> 0.724980335960"
  by (rule pow_add_bounds [OF decay_pow_16 decay_pow_16]) simp_all

lemma decay_pow_64: "0.525596487519 \<le> decay ^ 64 \<and> decay ^ 64 \<le> 0.525596487529"
  by (rule pow_add_bounds [OF decay_pow_32 decay_pow_32]) simp_all

lemma decay_pow_128: "0.276251667692 \<le> decay ^ 128 \<and> decay ^ 128 \<le> 0.276251667703"
  by (rule pow_add_bounds [OF decay_pow_64 decay_pow_64]) simp_all

lemma decay_pow_256: "0.076314983902 \<le> decay ^ 256 \<and> decay ^ 256 \<le> 0.076314983909"
  by (rule pow_add_bounds [OF decay_pow_128 decay_pow_128]) simp_all

lemma decay_pow_512: "0.005823976767 \<le> decay ^ 512 \<and> decay ^ 512 \<le> 0.005823976770"
  by (rule pow_add_bounds [OF decay_pow_256 decay_pow_256]) simp_all

lemma decay_pow_768: "0.000444456693 \<le> decay ^ 768 \<and> decay ^ 768 \<le> 0.000444456694"
  by (rule pow_add_bounds [OF decay_pow_512 decay_pow_256]) simp_all

lemma decay_pow_896: "0.000122781902 \<le> decay ^ 896 \<and> decay ^ 896 \<le> 0.000122781903"
  by (rule pow_add_bounds [OF decay_pow_768 decay_pow_128]) simp_all

lemma decay_pow_960: "0.000064533736 \<le> decay ^ 960 \<and> decay ^ 960 \<le> 0.000064533737"
  by (rule pow_add_bounds [OF decay_pow_896 decay_pow_64]) simp_all

lemma decay_pow_976: "0.000054947751 \<le> decay ^ 976 \<and> decay ^ 976 \<le> 0.000054947752"
  by (rule pow_add_bounds [OF decay_pow_960 decay_pow_16]) simp_all

lemma decay_pow_984: "0.000050702745 \<le> decay ^ 984 \<and> decay ^ 984 \<le> 0.000050702747"
  by (rule pow_add_bounds [OF decay_pow_976 decay_pow_8]) simp_all

lemma decay_pow_986: "0.000049693760 \<le> decay ^ 986 \<and> decay ^ 986 \<le> 0.000049693763"
  by (rule pow_add_bounds [OF decay_pow_984 decay_pow_2]) simp_all

lemma plan_loop_opt_Suc:
  "plan_loop_opt (Suc k) goal c path =
     (if dist_sq c goal < tolerance_sq then path
      else plan_loop_opt k goal (advance goal c) (path @ [advance goal c]))"
  by (cases goal, cases c) (simp add: dist_sq_def advance_def Let_def)

lemma sqrt_less_tenth: "sqrt x < 0.1 \<longleftrightarrow> x < 0.01"
proof -
  have s: "sqrt 0.01 = 0.1" by (rule real_sqrt_unique) (simp_all add: power2_eq_square)
  show ?thesis unfolding s [symmetric] by (rule real_sqrt_less_iff)
qed

lemma plan_loop_slow_test:
  "sqrt ((gx - cx)\<^sup>2 + (gy - cy)\<^sup>2 + (gz - cz)\<^sup>2) < 0.1
   \<longleftrightarrow> dist_sq (cx, cy, cz) (gx, gy, gz) < tolerance_sq"
proof -
  have t: "tolerance_sq = 0.01" by (simp add: tolerance_sq_def tolerance_def)
  have d: "dist_sq (cx, cy, cz) (gx, gy, gz) = (gx - cx)\<^sup>2 + (gy - cy)\<^sup>2 + (gz - cz)\<^sup>2"
    by (simp add: dist_sq_def power2_eq_square)
  show ?thesis by (simp only: t d sqrt_less_tenth)
qed

lemma plan_loop_slow_Suc:
  "plan_loop_slow (Suc k) goal c path =
     (if dist_sq c goal < tolerance_sq then path
      else plan_loop_slow k goal (advance goal c) (path @ [advance goal c]))"
proof -
  obtain gx gy gz where g: "goal = (gx, gy, gz)" by (cases goal) auto
  obtain cx cy cz where c: "c = (cx, cy, cz)" by (cases c) auto
  have adv: "advance (gx, gy, gz) (cx, cy, cz) =
      (cx + (gx - cx) * 0.01, cy + (gy - cy) * 0.01, cz + (gz - cz) * 0.01)"
    by (simp add: advance_def step_size_def)
  show ?thesis by (simp only: g c plan_loop_slow.simps Let_def plan_loop_slow_test adv)
qed

lemma plan_loop_slow_eq_opt: "plan_loop_slow k goal c path = plan_loop_opt k goal c path"
proof (induction k arbitrary: c path)
  case 0
  then show ?case by simp
next
  case (Suc k)
  then show ?case by (simp only: plan_loop_slow_Suc plan_loop_opt_Suc)
qed

lemma length_plan_loop_opt: "length (plan_loop_opt k goal c path) \<le> length path + k"
proof (induction k arbitrary: c path)
  case 0
  then show ?case by simp
next
  case (Suc k)
  have "length (plan_loop_opt k goal (advance goal c) (path @ [advance goal c])) \<le> length path + Suc k"
    using Suc.IH [of "advance goal c" "path @ [advance goal c]"] by simp
  then show ?case by (simp only: plan_loop_opt_Suc) simp
qed

lemma dist_sq_advance: "dist_sq (advance goal c) goal = decay ^ 2 * dist_sq c goal"
  by (cases goal, cases c) (simp add: dist_sq_def advance_def decay_def power2_eq_square algebra_simps)

lemma dist_sq_funpow_advance:
  "dist_sq ((advance goal ^^ j) c) goal = decay ^ (2 * j) * dist_sq c goal"
proof (induction j)
  case 0
  then show ?case by simp
next
  case (Suc j)
  have "dist_sq ((advance goal ^^ Suc j) c) goal = decay ^ 2 * dist_sq ((advance goal ^^ j) c) goal"
    by (simp add: dist_sq_advance)
  also have "\<dots> = decay ^ (2 * Suc j) * dist_sq c goal"
    by (simp add: Suc.IH power_add power2_eq_square)
  finally show ?case .
qed

lemma plan_loop_opt_run:
  assumes "m \<le> k"
    and "\<forall>j<m. tolerance_sq \<le> dist_sq ((advance goal ^^ j) c) goal"
    and "dist_sq ((advance goal ^^ m) c) goal < tolerance_sq"
  shows "plan_loop_opt k goal c path = path @ map (\<lambda>j. (advance goal ^^ Suc j) c) [0..<m]"
  using assms
proof (induction m arbitrary: k c path)
  case 0
  then show ?case by (cases k) (simp_all add: plan_loop_opt_Suc)
next
  case (Suc m)
  from Suc.prems(1) obtain k' where k: "k = Suc k'" "m \<le> k'" by (cases k) auto
  from Suc.prems(2) have far: "\<not> dist_sq c goal < tolerance_sq" by fastforce
  have rest: "\<forall>j<m. tolerance_sq \<le> dist_sq ((advance goal ^^ j) (advance goal c)) goal"
  proof (intro allI impI)
    fix j assume "j < m"
    then have "Suc j < Suc m" by simp
    with Suc.prems(2) have "tolerance_sq \<le> dist_sq ((advance goal ^^ Suc j) c) goal"
      by blast
    then show "tolerance_sq \<le> dist_sq ((advance goal ^^ j) (advance goal c)) goal"
      by (simp add: funpow_swap1)
  qed
  have close: "dist_sq ((advance goal ^^ m) (advance goal c)) goal < tolerance_sq"
    using Suc.prems(3) by (simp add: funpow_swap1)
  have "plan_loop_opt k goal c path =
        plan_loop_opt k' goal (advance goal c) (path @ [advance goal c])"
    using far by (simp only: k plan_loop_opt_Suc if_False)
  also have "\<dots> = (path @ [advance goal c]) @
                    map (\<lambda>j. (advance goal ^^ Suc j) (advance goal c)) [0..<m]"
    by (rule Suc.IH [OF k(2) rest close])
  also have "\<dots> = path @ map (\<lambda>j. (advance goal ^^ Suc j) c) [0..<Suc m]"
    by (simp add: map_upt_shift funpow_swap1 del: upt_Suc)
  finally show ?case .
qed

lemma plan_path_opt_example:
  "plan_path_opt (0, 0, 0) (10, 10, 0) obstacles =
     map (\<lambda>j. (advance (10, 10, 0) ^^ Suc j) (0, 0, 0)) [0..<493]"
proof -
  let ?g = "(10, 10, 0) :: vec3" and ?s = "(0, 0, 0) :: vec3"
  have d0: "dist_sq ?s ?g = 200" by (simp add: dist_sq_def)
  have tol: "tolerance_sq = 0.01" by (simp add: tolerance_sq_def tolerance_def)
  have dec: "0 \<le> decay" "decay \<le> 1" by (simp_all add: decay_def step_size_def)
  have far: "\<forall>j<493. tolerance_sq \<le> dist_sq ((advance ?g ^^ j) ?s) ?g"
  proof (intro allI impI)
    fix j :: nat assume "j < 493"
    then have "2 * j \<le> 984" by simp
    then have "decay ^ 984 \<le> decay ^ (2 * j)" using dec by (rule power_decreasing)
    with decay_pow_984 have "0.00005 \<le> decay ^ (2 * j)" by simp
    then show "tolerance_sq \<le> dist_sq ((advance ?g ^^ j) ?s) ?g"
      by (simp add: dist_sq_funpow_advance d0 tol)
  qed
  have close: "dist_sq ((advance ?g ^^ 493) ?s) ?g < tolerance_sq"
    using decay_pow_986 by (simp add: dist_sq_funpow_advance d0 tol)
  have "plan_loop_opt 1000 ?g ?s [] = [] @ map (\<lambda>j. (advance ?g ^^ Suc j) ?s) [0..<493]"
    by (rule plan_loop_opt_run [OF _ far close]) simp
  then show ?thesis by (simp add: plan_path_opt_def)
qed

lemma plan_path_opt_near:
  "dist_sq start goal < 0.01 \<Longrightarrow> plan_path_opt start goal obstacles = []"
proof -
  assume "dist_sq start goal < 0.01"
  then have "dist_sq start goal < tolerance_sq" by (simp add: tolerance_sq_def tolerance_def)
  then show ?thesis
    unfolding plan_path_opt_def numeral_eq_Suc by (simp only: plan_loop_opt_Suc if_True)
qed

lemma plan_path_slow_eq_opt: "plan_path_slow start goal obstacles = plan_path_opt start goal obstacles'"
  by (simp add: plan_path_slow_def plan_path_opt_def plan_loop_slow_eq_opt)

lemma length_plan_path_opt: "length (plan_path_opt start goal obstacles) \<le> 1000"
  using length_plan_loop_opt [of 1000 goal start "[]"] by (simp add: plan_path_opt_def)

text \<open>
  Claim C2. From \<open>(0,0,0)\<close> to \<open>(10,10,0)\<close> the planner converges, in both classes:
  the path has 493 waypoints, so at most 1000, and the last waypoint's squared distance
  to the goal is below 0.01. No path is longer than 1000. When the start is within
  squared distance 0.01 of the goal, in particular when it is the goal, the path is
  empty; the planner has no error exit.
\<close>

theorem plan_path_converges:
  "length (plan_path_opt (0, 0, 0) (10, 10, 0) obstacles) = 493
   \<and> length (plan_path_opt (0, 0, 0) (10, 10, 0) obstacles) \<le> 1000
   \<and> dist_sq (last (plan_path_opt (0, 0, 0) (10, 10, 0) obstacles)) (10, 10, 0) < 0.01
   \<and> length (plan_path_slow (0, 0, 0) (10, 10, 0) obstacles) = 493
   \<and> length (plan_path_slow (0, 0, 0) (10, 10, 0) obstacles) \<le> 1000
   \<and> dist_sq (last (plan_path_slow (0, 0, 0) (10, 10, 0) obstacles)) (10, 10, 0) < 0.01
   \<and> length (plan_path_opt start goal obstacles) \<le> 1000
   \<and> length (plan_path_slow start goal obstacles) \<le> 1000
   \<and> (dist_sq start goal < 0.01 \<longrightarrow>
        plan_path_opt start goal obstacles = [] \<and> plan_path_slow start goal obstacles = [])
   \<and> plan_path_opt start start obstacles = []
   \<and> plan_path_slow start start obstacles = []"
proof -
  let ?g = "(10, 10, 0) :: vec3" and ?s = "(0, 0, 0) :: vec3"
  let ?p = "plan_path_opt ?s ?g obstacles"
  have p: "?p = map (\<lambda>j. (advance ?g ^^ Suc j) ?s) [0..<493]"
    by (rule plan_path_opt_example)
  have len: "length ?p = 493" by (simp add: p)
  have ne: "?p \<noteq> []" using len by auto
  have "last ?p = ?p ! 492"
    using len by (simp add: last_conv_nth [OF ne])
  also have "\<dots> = (advance ?g ^^ 493) ?s"
    unfolding p by (simp del: funpow.simps upt_Suc)
  finally have l: "last ?p = (advance ?g ^^ 493) ?s" .
  have d0: "dist_sq ?s ?g = 200" by (simp add: dist_sq_def)
  have d: "dist_sq (last ?p) ?g < 0.01"
    using decay_pow_986 by (simp only: l dist_sq_funpow_advance d0) simp
  have slow: "plan_path_slow a b obstacles = plan_path_opt a b obstacles" for a b
    by (rule plan_path_slow_eq_opt)
  have bound: "length (plan_path_opt start goal obstacles) \<le> 1000"
    by (rule length_plan_path_opt)
  have near: "plan_path_opt start goal obstacles = []" if "dist_sq start goal < 0.01"
    using that by (rule plan_path_opt_near)
  have "dist_sq start start < 0.01" by (cases start) (simp add: dist_sq_def)
  then have same: "plan_path_opt start start obstacles = []" by (rule plan_path_opt_near)
  from len d bound near same show ?thesis by (simp add: slow)
qed

theorem plan_path_converges_witness:
  "plan_path_opt (1, 2, 3) (1, 2, 3.05) () = [] \<and> plan_path_slow (1, 2, 3) (1, 2, 3.05) () = []"
proof -
  have "dist_sq (1, 2, 3) (1, 2, 3.05) < 0.01" by (simp add: dist_sq_def)
  with plan_path_converges [of "()" "(1, 2, 3)" "(1, 2, 3.05)"] show ?thesis by blast
qed

section \<open>The two classes compared\<close>

lemma position_update_many_slow:
  "position self = (px, py, pz) \<Longrightarrow> velocity self = (vx, vy, vz) \<Longrightarrow>
   position (update_many_slow self dts) = (px + vx * sum_list dts, py + vy * sum_list dts, pz + vz * sum_list dts)
   \<and> velocity (update_many_slow self dts) = (vx, vy, vz)"
proof (induction dts rule: rev_induct)
  case Nil
  then show ?case by (simp add: update_many_slow_def)
next
  case (snoc dt dts)
  then show ?case
    by (simp add: update_many_slow_def update_position_slow_def Let_def algebra_simps)
qed

lemma position_update_many_agree:
  "position (update_many_slow self dts) = position (update_many_opt self dts)"
proof -
  obtain px py pz where p: "position self = (px, py, pz)" by (cases "position self") auto
  obtain vx vy vz where v: "velocity self = (vx, vy, vz)" by (cases "velocity self") auto
  show ?thesis
    using position_update_many_slow [OF p v, of dts] position_update_many_opt [OF p v, of dts]
    by simp
qed

text \<open>
  What the two classes share. In exact arithmetic, and with a number of samples that is
  not negative, they return equal results on the same input: the positions after one
  update and after any run of updates, the limb distance or its error, the scanned
  field, the obstacles (as a set), the planned path and the total energy; the test
  \<open>distance < 0.1\<close> of the slow planner and the test
  \<open>squared distance < 0.1 * 0.1\<close> of the optimized one decide alike. With Python's
  floats the product \<open>0.1 * 0.1\<close> is not the float \<open>0.01\<close> and \<open>d ** 2\<close> can raise
  where \<open>d * d\<close> gives infinity, so this agreement is a fact of the exact model only.
\<close>

lemma variants_agree_exact:
  "position (update_position_slow self dt) = position (update_position_opt self dt)
   \<and> position (update_many_slow self dts) = position (update_many_opt self dts)
   \<and> calculate_leg_kinematics_slow self i t = calculate_leg_kinematics_opt self i t
   \<and> (0 \<le> n \<longrightarrow>
        scan_environment_opt self n =
          Inr (self\<lparr>sensor_data := snd (scan_environment_slow self n)\<rparr>,
               snd (scan_environment_slow self n)))
   \<and> set (find_obstacles_slow field) = find_obstacles_opt field
   \<and> plan_path_slow start goal obstacles = plan_path_opt start goal obstacles
   \<and> plan_loop_slow k goal c waypoints = plan_loop_opt k goal c waypoints
   \<and> (euclidean c goal < tolerance) = (dist_sq c goal < tolerance_sq)
   \<and> fst (calculate_energy_consumption_slow repr path) =
       fst (calculate_energy_consumption_opt repr path)"
proof -
  have a: "position (update_position_slow self dt) = position (update_position_opt self dt)"
    by (simp add: update_position_slow_def update_position_opt_def Let_def split: prod.splits)
  have b: "position (update_many_slow self dts) = position (update_many_opt self dts)"
    by (rule position_update_many_agree)
  have c: "calculate_leg_kinematics_slow self i t = calculate_leg_kinematics_opt self i t"
    by (rule calculate_leg_kinematics_slow_eq_opt)
  have d: "scan_environment_opt self n =
          Inr (self\<lparr>sensor_data := snd (scan_environment_slow self n)\<rparr>,
               snd (scan_environment_slow self n))" if "0 \<le> n"
    using that
    by (simp add: scan_environment_opt_nonneg scan_environment_slow_def Let_def scan_readings_slow_eq)
  have e: "set (find_obstacles_slow field) = find_obstacles_opt field"
    using fold_append_new [of "[]" "\<lambda>r. r > threshold" field]
    by (simp add: find_obstacles_slow_def find_obstacles_opt_def fold_insert_if)
  have f: "plan_path_slow start goal obstacles = plan_path_opt start goal obstacles"
    by (rule plan_path_slow_eq_opt)
  have g: "fst (calculate_energy_consumption_slow repr path) =
       fst (calculate_energy_consumption_opt repr path)"
    by (simp add: calculate_energy_consumption_slow_def calculate_energy_consumption_opt_def
          energy_loop_slow_eq energy_loop_opt_eq)
  have h: "plan_loop_slow k goal c waypoints = plan_loop_opt k goal c waypoints"
    by (rule plan_loop_slow_eq_opt)
  have i: "(euclidean c goal < tolerance) = (dist_sq c goal < tolerance_sq)"
    by (simp only: euclidean_def tolerance_def tolerance_sq_def sqrt_less_tenth) simp
  from a b c d e f g h i show ?thesis by blast
qed

text \<open>
  Claim C9. The two classes are to return equal results on every identical input. The
  code breaks that in the scan: for every negative number of samples \<open>n\<close> the slow
  class returns the empty field, and the optimized class returns the \<open>n\<^sup>2\<close> zeros of
  the list it allocated before its loops, which are empty; the two results have
  different lengths, so the optimized result is not the slow one whatever the state.
  For \<open>n = -1\<close> the slow class returns \<open>[]\<close> and the optimized class \<open>[0]\<close>.
\<close>

theorem scan_environment_negative_diverges:
  assumes "n < 0"
  shows "snd (scan_environment_slow self n) = []
    \<and> scan_environment_opt self n =
        Inr (self\<lparr>sensor_data := replicate (nat (n * n)) 0\<rparr>, replicate (nat (n * n)) 0)
    \<and> int (length (replicate (nat (n * n)) (0::real))) = n * n
    \<and> 0 < n * n
    \<and> scan_environment_opt self n \<noteq> Inr (self', snd (scan_environment_slow self n))"
proof -
  from assms have pos: "0 < n * n" by (simp add: mult_neg_neg)
  have slow: "snd (scan_environment_slow self n) = []"
    using assms by (simp add: scan_environment_slow_def Let_def scan_readings_slow_def py_range_def)
  have opt: "scan_environment_opt self n =
        Inr (self\<lparr>sensor_data := replicate (nat (n * n)) 0\<rparr>, replicate (nat (n * n)) 0)"
    using assms by (rule scan_environment_opt_neg)
  have ne: "replicate (nat (n * n)) (0::real) \<noteq> []" using pos by simp
  have len: "int (length (replicate (nat (n * n)) (0::real))) = n * n" using pos by simp
  have diff: "scan_environment_opt self n \<noteq> Inr (self', snd (scan_environment_slow self n))"
    using ne by (simp add: opt slow)
  from pos slow opt len diff show ?thesis by simp
qed

theorem scan_environment_negative_diverges_witness:
  "snd (scan_environment_slow (MechanicalDog ''Test'') (- 1)) = []
   \<and> scan_environment_opt (MechanicalDog ''Test'') (- 1) =
       Inr ((MechanicalDog ''Test'')\<lparr>sensor_data := [0]\<rparr>, [0])"
  using scan_environment_negative_diverges [of "- 1" "MechanicalDog ''Test''"]
  by simp

end
